theory Spec2Isabelle
  imports Main "HOL-Library.Word" "HOL-Library.Signed_Division"
begin

section \<open>Machine types and the environment of cgroup.cpp\<close>

text \<open>
  The model is for the LP64 Linux target of the PAL: \<open>size_t\<close>, \<open>long\<close>,
  \<open>long long\<close> and \<open>rlim_t\<close> are 64 bits wide, \<open>UINT\<close> is 32 bits wide.
  Signed values are words read with \<open>sint\<close>.
\<close>

type_synonym size_t = "64 word"
type_synonym longlong = "64 word"
type_synonym long = "64 word"
type_synonym UINT = "32 word"

definition SIZE_T_MAX :: size_t where
  "SIZE_T_MAX = - 1"

definition RLIM_INFINITY :: size_t where
  "RLIM_INFINITY = - 1"

definition UINT_MAX :: UINT where
  "UINT_MAX = 4294967295"

definition ULLONG_MAX :: nat where
  "ULLONG_MAX = 18446744073709551615"

definition LLONG_MAX :: nat where
  "LLONG_MAX = 9223372036854775807"

definition PROC_MOUNTINFO_FILENAME :: string where
  "PROC_MOUNTINFO_FILENAME = ''/proc/self/mountinfo''"

definition PROC_CGROUP_FILENAME :: string where
  "PROC_CGROUP_FILENAME = ''/proc/self/cgroup''"

definition PROC_STATM_FILENAME :: string where
  "PROC_STATM_FILENAME = ''/proc/self/statm''"

definition MEM_LIMIT_FILENAME :: string where
  "MEM_LIMIT_FILENAME = ''/memory.limit_in_bytes''"

definition CFS_QUOTA_FILENAME :: string where
  "CFS_QUOTA_FILENAME = ''/cpu.cfs_quota_us''"

definition CFS_PERIOD_FILENAME :: string where
  "CFS_PERIOD_FILENAME = ''/cpu.cfs_period_us''"

text \<open>
  Everything the code asks of the operating system. A file is the list of the lines that
  successive \<open>getline\<close> calls return (each with its newline, when it has one);
  \<open>files\<close> gives \<open>None\<close> for a name that \<open>fopen\<close> cannot open. Lines are C
  strings without embedded NUL. \<open>rlimit_as\<close> is \<open>rlim_cur\<close> of
  \<open>getrlimit(RLIMIT_AS)\<close>, \<open>None\<close> when the call fails; \<open>phys_pages\<close> and
  \<open>page_size\<close> are what \<open>sysconf\<close> returns (\<open>- 1\<close> on failure).
  \<open>VIRTUAL_PAGE_SIZE\<close> comes from pal/virtual.h, which is not among the sources, and
  is a field here. \<open>PAL_malloc\<close> is taken to succeed: the allocation-failure exits
  of the source leave by the same \<open>done\<close> labels as the parse failures.

  Every function that opens files returns, beside its result, the names it passed to
  \<open>fopen\<close>, in order.
\<close>

record env =
  files :: "string \<Rightarrow> string list option"
  rlimit_as :: "size_t option"
  phys_pages :: long
  page_size :: long
  VIRTUAL_PAGE_SIZE :: size_t

definition fopen :: "env \<Rightarrow> string \<Rightarrow> string list option" where
  "fopen e filename = files e filename"

text \<open>
  A result that can be a crash: \<open>Fault\<close> is the dereference of a null pointer by a
  string function that was handed one.
\<close>

datatype 'a outcome = Fault | Ret 'a

section \<open>The C library functions the code calls\<close>

definition nl :: char where
  "nl = CHR 0x0A"

definition isspace :: "char \<Rightarrow> bool" where
  "isspace c = (c = CHR '' '' \<or> c = CHR 0x09 \<or> c = CHR 0x0A \<or> c = CHR 0x0B
                \<or> c = CHR 0x0C \<or> c = CHR 0x0D)"

definition digit_val :: "char \<Rightarrow> nat option" where
  "digit_val c =
     (let n = (of_char c :: nat)
      in if 48 \<le> n \<and> n \<le> 57 then Some (n - 48)
         else if 97 \<le> n \<and> n \<le> 122 then Some (n - 87)
         else if 65 \<le> n \<and> n \<le> 90 then Some (n - 55)
         else None)"

definition is_digit_in :: "nat \<Rightarrow> string \<Rightarrow> bool" where
  "is_digit_in b s =
     (case s of [] \<Rightarrow> False
      | c # _ \<Rightarrow> (case digit_val c of Some d \<Rightarrow> d < b | None \<Rightarrow> False))"

fun strto_digits :: "nat \<Rightarrow> string \<Rightarrow> nat \<Rightarrow> nat \<times> string" where
  "strto_digits b [] acc = (acc, [])"
| "strto_digits b (c # cs) acc =
     (case digit_val c of
        Some d \<Rightarrow> if d < b then strto_digits b cs (acc * b + d) else (acc, c # cs)
      | None \<Rightarrow> (acc, c # cs))"

definition skip_sign :: "string \<Rightarrow> bool \<times> string" where
  "skip_sign s =
     (case s of [] \<Rightarrow> (False, s)
      | c # cs \<Rightarrow> if c = CHR ''-'' then (True, cs)
                  else if c = CHR ''+'' then (False, cs) else (False, s))"

definition base0_prefix :: "string \<Rightarrow> nat \<times> string" where
  "base0_prefix s =
     (case s of
        c # x # cs \<Rightarrow>
          if c = CHR ''0'' \<and> (x = CHR ''x'' \<or> x = CHR ''X'') \<and> is_digit_in 16 cs
          then (16, cs)
          else if c = CHR ''0'' then (8, s) else (10, s)
      | _ \<Rightarrow> if s = ''0'' then (8, s) else (10, s))"

text \<open>
  \<open>strtoull(nptr, &endptr, 0)\<close>, the only way the code calls it: white space is
  skipped, a sign is accepted (a minus sign negates the value in the unsigned type), the
  base is 16 after \<open>0x\<close>, 8 after \<open>0\<close> and 10 otherwise. The result is the value,
  the text \<open>endptr\<close> points to, and whether \<open>errno\<close> was set: to \<open>ERANGE\<close> when
  the digits exceed \<open>ULLONG_MAX\<close>, the value being \<open>ULLONG_MAX\<close> then. With no
  digits the value is 0, \<open>endptr\<close> is \<open>nptr\<close> and \<open>errno\<close> is left alone, as
  glibc does.
\<close>

definition strtoull :: "string \<Rightarrow> size_t \<times> string \<times> bool" where
  "strtoull nptr =
     (let (neg, s) = skip_sign (dropWhile isspace nptr);
          (base, ds) = base0_prefix s
      in if \<not> is_digit_in base ds then (0, nptr, False)
         else let (n, endptr) = strto_digits base ds 0
              in if ULLONG_MAX < n then (- 1, endptr, True)
                 else (if neg then - of_nat n else of_nat n, endptr, False))"

text \<open>
  \<open>atoll(nptr)\<close>, which glibc computes as \<open>strtoll(nptr, NULL, 10)\<close>: the value and
  whether \<open>errno\<close> was set (\<open>ERANGE\<close>, with the value clamped to \<open>LLONG_MAX\<close> or
  \<open>LLONG_MIN\<close>). With no digits the value is 0 and \<open>errno\<close> is left alone.
\<close>

definition atoll :: "string \<Rightarrow> longlong \<times> bool" where
  "atoll nptr =
     (let (neg, s) = skip_sign (dropWhile isspace nptr)
      in if \<not> is_digit_in 10 s then (0, False)
         else let (n, endptr) = strto_digits 10 s 0
              in if neg then (if LLONG_MAX + 1 < n then (- of_nat (LLONG_MAX + 1), True)
                              else (- of_nat n, False))
                 else (if LLONG_MAX < n then (of_nat LLONG_MAX, True)
                       else (of_nat n, False)))"

section \<open>The limit readers\<close>

text \<open>
  An output pointer \<open>T *val\<close> is a \<open>T option\<close>: \<open>None\<close> is the null pointer,
  \<open>Some v\<close> points to a cell that holds \<open>v\<close>. A function with an output pointer
  returns the cell as it leaves it.
\<close>

definition deref :: "string \<Rightarrow> char" where
  "deref p = (case p of [] \<Rightarrow> CHR 0x00 | c # _ \<Rightarrow> c)"

text \<open>The \<open>switch\<close> on the character after the number, with its fall-through.\<close>

definition suffix_multiplier :: "char \<Rightarrow> size_t" where
  "suffix_multiplier c =
     (let multiplier = 1;
          multiplier = (if c = CHR ''g'' \<or> c = CHR ''G'' then 1024 else multiplier);
          multiplier = (if c = CHR ''g'' \<or> c = CHR ''G'' \<or> c = CHR ''m'' \<or> c = CHR ''M''
                        then multiplier * 1024 else multiplier);
          multiplier = (if c = CHR ''g'' \<or> c = CHR ''G'' \<or> c = CHR ''m'' \<or> c = CHR ''M''
                           \<or> c = CHR ''k'' \<or> c = CHR ''K''
                        then multiplier * 1024 else multiplier)
      in multiplier)"

definition ReadMemoryValueFromFile ::
  "env \<Rightarrow> string \<Rightarrow> size_t option \<Rightarrow> (bool \<times> size_t option) \<times> string list" where
  "ReadMemoryValueFromFile e filename val =
     (if val = None then ((False, val), [])
      else case fopen e filename of
             None \<Rightarrow> ((False, val), [filename])
           | Some [] \<Rightarrow> ((False, val), [filename])
           | Some (line # _) \<Rightarrow>
               (let (num, endptr, err) = strtoull line
                in if err then ((False, val), [filename])
                   else let multiplier = suffix_multiplier (deref endptr);
                            v = num * multiplier
                        in ((v div multiplier = num, Some v), [filename])))"

definition ReadLongLongValueFromFile ::
  "env \<Rightarrow> string \<Rightarrow> longlong option \<Rightarrow> (bool \<times> longlong option) \<times> string list" where
  "ReadLongLongValueFromFile e filename val =
     (if val = None then ((False, val), [])
      else case fopen e filename of
             None \<Rightarrow> ((False, val), [filename])
           | Some [] \<Rightarrow> ((False, val), [filename])
           | Some (line # _) \<Rightarrow>
               (let (v, err) = atoll line
                in if err then ((False, Some v), [filename])
                   else ((True, Some v), [filename])))"

section \<open>String scanning: \<open>strchr\<close>, \<open>strtok_s\<close>, \<open>sscanf_s\<close>\<close>

definition strchr :: "string \<Rightarrow> char \<Rightarrow> string option" where
  "strchr s c = (if c \<in> set s then Some (dropWhile (\<lambda>x. x \<noteq> c) s) else None)"

text \<open>
  The tokens that successive \<open>strtok_s\<close> calls on one string return, in order, before
  the call that returns \<open>NULL\<close>: the maximal runs of characters other than the
  delimiter. \<open>cur\<close> is the token being read.
\<close>

fun split_tokens :: "char \<Rightarrow> string \<Rightarrow> string \<Rightarrow> string list" where
  "split_tokens d [] cur = (if cur = [] then [] else [cur])"
| "split_tokens d (c # cs) cur =
     (if c = d then (if cur = [] then split_tokens d cs [] else cur # split_tokens d cs [])
      else split_tokens d cs (cur @ [c]))"

definition strtok_all :: "string \<Rightarrow> char \<Rightarrow> string list" where
  "strtok_all s d = split_tokens d s []"

text \<open>
  The directives of the three \<open>sscanf_s\<close> formats of the source: white space, a literal
  character, \<open>%s\<close> and \<open>%[^:]\<close>; the flag of a conversion is \<open>False\<close> when it is
  suppressed with \<open>*\<close>. Every buffer the source passes has room for the whole line, so
  the size arguments never cut a token short.
\<close>

datatype directive = WS | Lit char | ConvS bool | ConvNotColon bool

datatype scanned = EOF | Stored "string list"

definition input_failure :: "bool \<Rightarrow> string list \<Rightarrow> scanned" where
  "input_failure converted acc = (if converted then Stored acc else EOF)"

text \<open>
  \<open>scan ds s converted acc\<close>: \<open>converted\<close> says whether a conversion has completed,
  \<open>acc\<close> holds the strings stored so far. The input running out before the first
  conversion has completed gives \<open>EOF\<close>; any other failure ends the scan with what has
  been stored.
\<close>

fun scan :: "directive list \<Rightarrow> string \<Rightarrow> bool \<Rightarrow> string list \<Rightarrow> scanned" where
  "scan [] s converted acc = Stored acc"
| "scan (WS # ds) s converted acc = scan ds (dropWhile isspace s) converted acc"
| "scan (Lit c # ds) s converted acc =
     (case s of [] \<Rightarrow> input_failure converted acc
      | x # xs \<Rightarrow> if x = c then scan ds xs converted acc else Stored acc)"
| "scan (ConvS store # ds) s converted acc =
     (let s' = dropWhile isspace s
      in if s' = [] then input_failure converted acc
         else scan ds (dropWhile (\<lambda>c. \<not> isspace c) s') True
                (if store then acc @ [takeWhile (\<lambda>c. \<not> isspace c) s'] else acc))"
| "scan (ConvNotColon store # ds) s converted acc =
     (if s = [] then input_failure converted acc
      else if takeWhile (\<lambda>c. c \<noteq> CHR '':'') s = [] then Stored acc
      else scan ds (dropWhile (\<lambda>c. c \<noteq> CHR '':'') s) True
             (if store then acc @ [takeWhile (\<lambda>c. c \<noteq> CHR '':'') s] else acc))"

definition sscanf_s :: "string \<Rightarrow> directive list \<Rightarrow> scanned" where
  "sscanf_s s format = scan format s False []"

definition sscanfRet :: "scanned \<Rightarrow> int" where
  "sscanfRet r = (case r of EOF \<Rightarrow> - 1 | Stored vs \<Rightarrow> int (length vs))"

text \<open>The strings behind the two output arguments when the call returned 2, and behind
  the one when it returned 1.\<close>

definition stored2 :: "scanned \<Rightarrow> (string \<times> string) option" where
  "stored2 r = (case r of Stored [a, b] \<Rightarrow> Some (a, b) | _ \<Rightarrow> None)"

definition stored1 :: "scanned \<Rightarrow> string option" where
  "stored1 r = (case r of Stored [a] \<Rightarrow> Some a | _ \<Rightarrow> None)"

text \<open>\<open>"- %s %*s %s"\<close>, \<open>"%*s %*s %*s %*s %s "\<close> and \<open>"%*[^:]:%[^:]:%s"\<close>.\<close>

definition mountinfo_format :: "directive list" where
  "mountinfo_format = [Lit CHR ''-'', WS, ConvS True, WS, ConvS False, WS, ConvS True]"

definition mountpath_format :: "directive list" where
  "mountpath_format =
     [ConvS False, WS, ConvS False, WS, ConvS False, WS, ConvS False, WS, ConvS True, WS]"

definition cgroup_format :: "directive list" where
  "cgroup_format =
     [ConvNotColon False, Lit CHR '':'', ConvNotColon True, Lit CHR '':'', ConvS True]"

section \<open>Class \<open>CGroup\<close>\<close>

record CGroup =
  m_memory_cgroup_path :: "string option"
  m_cpu_cgroup_path :: "string option"

definition IsMemorySubsystem :: "string \<Rightarrow> bool" where
  "IsMemorySubsystem strTok = (strTok = ''memory'')"

definition IsCpuSubsystem :: "string \<Rightarrow> bool" where
  "IsCpuSubsystem strTok = (strTok = ''cpu'')"

text \<open>
  The \<open>getline\<close> loop of \<open>FindHierarchyMount\<close> over the lines still unread. The
  result of \<open>strchr\<close> goes to \<open>sscanf_s\<close> unchecked: when the line has no
  \<open>-\<close> the scanner is handed a null pointer. \<open>sscanf_s\<close> belongs to the safe CRT
  of the PAL, which is not among the sources; a null string argument is taken to be a
  fault, as it is for the \<open>scanf\<close> family of ISO C.
\<close>

fun FindHierarchyMount_loop :: "(string \<Rightarrow> bool) \<Rightarrow> string list \<Rightarrow> string option outcome" where
  "FindHierarchyMount_loop is_subsystem [] = Ret None"
| "FindHierarchyMount_loop is_subsystem (line # rest) =
     (case strchr line CHR ''-'' of
        None \<Rightarrow> Fault
      | Some separatorChar \<Rightarrow>
          (case stored2 (sscanf_s separatorChar mountinfo_format) of
             None \<Rightarrow> Ret None
           | Some (filesystemType, options) \<Rightarrow>
               if take 6 filesystemType = ''cgroup''
                  \<and> list_ex is_subsystem (strtok_all options CHR '','')
               then Ret (stored1 (sscanf_s line mountpath_format))
               else FindHierarchyMount_loop is_subsystem rest))"

definition FindHierarchyMount ::
  "env \<Rightarrow> (string \<Rightarrow> bool) \<Rightarrow> string option outcome \<times> string list" where
  "FindHierarchyMount e is_subsystem =
     (case fopen e PROC_MOUNTINFO_FILENAME of
        None \<Rightarrow> (Ret None, [PROC_MOUNTINFO_FILENAME])
      | Some lines \<Rightarrow> (FindHierarchyMount_loop is_subsystem lines, [PROC_MOUNTINFO_FILENAME]))"

fun FindCGroupPathForSubsystem_loop :: "(string \<Rightarrow> bool) \<Rightarrow> string list \<Rightarrow> string option" where
  "FindCGroupPathForSubsystem_loop is_subsystem [] = None"
| "FindCGroupPathForSubsystem_loop is_subsystem (line # rest) =
     (case stored2 (sscanf_s line cgroup_format) of
        None \<Rightarrow> None
      | Some (subsystem_list, cgroup_path) \<Rightarrow>
          if list_ex is_subsystem (strtok_all subsystem_list CHR '','')
          then Some cgroup_path
          else FindCGroupPathForSubsystem_loop is_subsystem rest)"

definition FindCGroupPathForSubsystem ::
  "env \<Rightarrow> (string \<Rightarrow> bool) \<Rightarrow> string option \<times> string list" where
  "FindCGroupPathForSubsystem e is_subsystem =
     (case fopen e PROC_CGROUP_FILENAME of
        None \<Rightarrow> (None, [PROC_CGROUP_FILENAME])
      | Some lines \<Rightarrow>
          (FindCGroupPathForSubsystem_loop is_subsystem lines, [PROC_CGROUP_FILENAME]))"

text \<open>
  \<open>FindMemoryCgroupPath\<close> and \<open>FindCpuCgroupPath\<close> differ in the predicate only;
  \<open>FindCgroupPath\<close> is their common body.
\<close>

definition FindCgroupPath ::
  "env \<Rightarrow> (string \<Rightarrow> bool) \<Rightarrow> string option outcome \<times> string list" where
  "FindCgroupPath e is_subsystem =
     (case FindHierarchyMount e is_subsystem of
        (Fault, t) \<Rightarrow> (Fault, t)
      | (Ret None, t) \<Rightarrow> (Ret None, t)
      | (Ret (Some hierarchy_mount), t) \<Rightarrow>
          (case FindCGroupPathForSubsystem e is_subsystem of
             (None, t') \<Rightarrow> (Ret None, t @ t')
           | (Some cgroup_path_relative_to_mount, t') \<Rightarrow>
               (Ret (Some (hierarchy_mount @ cgroup_path_relative_to_mount)), t @ t')))"

definition FindMemoryCgroupPath :: "env \<Rightarrow> string option outcome \<times> string list" where
  "FindMemoryCgroupPath e = FindCgroupPath e IsMemorySubsystem"

definition FindCpuCgroupPath :: "env \<Rightarrow> string option outcome \<times> string list" where
  "FindCpuCgroupPath e = FindCgroupPath e IsCpuSubsystem"

text \<open>The constructor.\<close>

definition CGroup_ctor :: "env \<Rightarrow> CGroup outcome \<times> string list" where
  "CGroup_ctor e =
     (case FindMemoryCgroupPath e of
        (Fault, t) \<Rightarrow> (Fault, t)
      | (Ret memory_path, t) \<Rightarrow>
          (case FindCpuCgroupPath e of
             (Fault, t') \<Rightarrow> (Fault, t @ t')
           | (Ret cpu_path, t') \<Rightarrow>
               (Ret \<lparr>m_memory_cgroup_path = memory_path, m_cpu_cgroup_path = cpu_path\<rparr>,
                t @ t')))"

text \<open>
  The methods return the object beside their result, as they leave it. A local variable
  that the source leaves uninitialised and passes by address is a cell holding 0; the
  callee overwrites it before the caller reads it.
\<close>

definition GetPhysicalMemoryLimit ::
  "env \<Rightarrow> CGroup \<Rightarrow> size_t option \<Rightarrow> (bool \<times> size_t option) \<times> CGroup \<times> string list" where
  "GetPhysicalMemoryLimit e this val =
     (case m_memory_cgroup_path this of
        None \<Rightarrow> ((False, val), this, [])
      | Some path \<Rightarrow>
          (let (result, t) = ReadMemoryValueFromFile e (path @ MEM_LIMIT_FILENAME) val
           in (result, this, t)))"

definition ReadCpuCGroupValue ::
  "env \<Rightarrow> CGroup \<Rightarrow> string \<Rightarrow> longlong \<times> CGroup \<times> string list" where
  "ReadCpuCGroupValue e this subsystemFilename =
     (case m_cpu_cgroup_path this of
        None \<Rightarrow> (- 1, this, [])
      | Some path \<Rightarrow>
          (let ((result, val), t) =
                 ReadLongLongValueFromFile e (path @ subsystemFilename) (Some 0)
           in if \<not> result then (- 1, this, t)
              else (case val of Some v \<Rightarrow> (v, this, t) | None \<Rightarrow> (0, this, t))))"

text \<open>Division of \<open>long long\<close>, which truncates towards zero.\<close>

definition lldiv :: "longlong \<Rightarrow> longlong \<Rightarrow> longlong" where
  "lldiv a b = word_of_int (sint a sdiv sint b)"

text \<open>
  \<open>GetCpuLimit\<close> stores through \<open>val\<close> without a null check; its one caller has
  checked the pointer, so the model is given the cell.
\<close>

definition GetCpuLimit ::
  "env \<Rightarrow> CGroup \<Rightarrow> UINT \<Rightarrow> (bool \<times> UINT) \<times> CGroup \<times> string list" where
  "GetCpuLimit e this val =
     (let (quota, this1, t1) = ReadCpuCGroupValue e this CFS_QUOTA_FILENAME
      in if quota \<le>s 0 then ((False, val), this1, t1)
         else let (period, this2, t2) = ReadCpuCGroupValue e this1 CFS_PERIOD_FILENAME
              in if period \<le>s 0 then ((False, val), this2, t1 @ t2)
                 else if quota \<le>s period then ((True, 1), this2, t1 @ t2)
                 else let cpu_count = lldiv quota period
                      in if cpu_count <s ucast UINT_MAX
                         then ((True, ucast cpu_count), this2, t1 @ t2)
                         else ((True, UINT_MAX), this2, t1 @ t2))"

section \<open>The public queries\<close>

definition PAL_GetRestrictedPhysicalMemoryLimit :: "env \<Rightarrow> size_t outcome \<times> string list" where
  "PAL_GetRestrictedPhysicalMemoryLimit e =
     (case CGroup_ctor e of
        (Fault, t) \<Rightarrow> (Fault, t)
      | (Ret cgroup, t) \<Rightarrow>
          (let ((ok, cell), cgroup', t') = GetPhysicalMemoryLimit e cgroup (Some 0);
               physical_memory_limit =
                 (if \<not> ok then SIZE_T_MAX else (case cell of Some v \<Rightarrow> v | None \<Rightarrow> 0));
               rlimit_soft_limit =
                 (case rlimit_as e of Some rlim_cur \<Rightarrow> rlim_cur | None \<Rightarrow> RLIM_INFINITY);
               physical_memory_limit = min physical_memory_limit rlimit_soft_limit;
               physical_memory_limit =
                 (if phys_pages e \<noteq> - 1
                  then (if page_size e \<noteq> - 1
                        then min physical_memory_limit (phys_pages e * page_size e)
                        else physical_memory_limit)
                  else physical_memory_limit);
               physical_memory_limit =
                 (if physical_memory_limit = SIZE_T_MAX then 0 else physical_memory_limit)
           in (Ret physical_memory_limit, t @ t')))"

text \<open>
  In \<open>PAL_GetWorkingSetSize\<close> the second \<open>strtok_s\<close> result goes to \<open>strtoull\<close>
  unchecked: when the line has fewer than two tokens \<open>strtoull\<close> is handed a null
  pointer.
\<close>

definition PAL_GetWorkingSetSize ::
  "env \<Rightarrow> size_t option \<Rightarrow> (bool \<times> size_t option) outcome \<times> string list" where
  "PAL_GetWorkingSetSize e val =
     (if val = None then (Ret (False, val), [])
      else case fopen e PROC_STATM_FILENAME of
             None \<Rightarrow> (Ret (False, val), [PROC_STATM_FILENAME])
           | Some [] \<Rightarrow> (Ret (False, val), [PROC_STATM_FILENAME])
           | Some (line # _) \<Rightarrow>
               (case strtok_all line CHR '' '' of
                  _ # strTok # _ \<Rightarrow>
                    (let (v, endptr, err) = strtoull strTok
                     in if \<not> err
                        then (Ret (True, Some (v * VIRTUAL_PAGE_SIZE e)), [PROC_STATM_FILENAME])
                        else (Ret (False, Some v), [PROC_STATM_FILENAME]))
                | _ \<Rightarrow> (Fault, [PROC_STATM_FILENAME])))"

text \<open>In \<open>PAL_GetCpuLimit\<close> the object is constructed before the pointer is checked.\<close>

definition PAL_GetCpuLimit ::
  "env \<Rightarrow> UINT option \<Rightarrow> (bool \<times> UINT option) outcome \<times> string list" where
  "PAL_GetCpuLimit e val =
     (case CGroup_ctor e of
        (Fault, t) \<Rightarrow> (Fault, t)
      | (Ret cgroup, t) \<Rightarrow>
          (case val of
             None \<Rightarrow> (Ret (False, None), t)
           | Some v \<Rightarrow>
               (let ((result, v'), cgroup', t') = GetCpuLimit e cgroup v
                in (Ret (result, Some v'), t @ t'))))"

section \<open>Concrete environments\<close>

text \<open>An environment with a single readable file, of one line.\<close>

definition one_line_file :: "string \<Rightarrow> string \<Rightarrow> env" where
  "one_line_file filename line =
     \<lparr>files = (\<lambda>n. if n = filename then Some [line] else None), rlimit_as = None,
      phys_pages = - 1, page_size = - 1, VIRTUAL_PAGE_SIZE = 4096\<rparr>"

text \<open>
  A container: the memory and cpu hierarchies are mounted, the process is in \<open>/y\<close> for
  memory and in \<open>/x\<close> for cpu, the memory limit is 2g, the quota and the period are the
  lines given.
\<close>

definition container_env :: "string \<Rightarrow> string \<Rightarrow> string \<Rightarrow> env" where
  "container_env limit quota period =
     \<lparr>files = (\<lambda>n.
        if n = ''/proc/self/mountinfo'' then
          Some [''25 20 0:21 / /sys/fs/cgroup/memory rw - cgroup cgroup rw,memory'' @ [nl],
                ''26 20 0:22 / /sys/fs/cgroup/cpu rw - cgroup cgroup rw,cpu,cpuacct'' @ [nl]]
        else if n = ''/proc/self/cgroup'' then
          Some [''2:cpu,cpuacct:/x'' @ [nl], ''1:memory:/y'' @ [nl]]
        else if n = ''/sys/fs/cgroup/memory/y/memory.limit_in_bytes'' then Some [limit @ [nl]]
        else if n = ''/sys/fs/cgroup/cpu/x/cpu.cfs_quota_us'' then Some [quota @ [nl]]
        else if n = ''/sys/fs/cgroup/cpu/x/cpu.cfs_period_us'' then Some [period @ [nl]]
        else if n = ''/proc/self/statm'' then Some [''100 20 3 4 5 6 7'' @ [nl]]
        else None),
      rlimit_as = Some (- 1), phys_pages = - 1, page_size = 4096,
      VIRTUAL_PAGE_SIZE = 4096\<rparr>"

definition container_cgroup :: CGroup where
  "container_cgroup =
     \<lparr>m_memory_cgroup_path = Some ''/sys/fs/cgroup/memory/y'',
      m_cpu_cgroup_path = Some ''/sys/fs/cgroup/cpu/x''\<rparr>"

section \<open>The claims in the words of the specification\<close>

text \<open>
  The bounds that the three sources yield: the cgroup limit when the read succeeded, the
  soft limit when \<open>getrlimit\<close> succeeded and the limit is finite, pages times page size
  (in \<open>size_t\<close>) when both are known.
\<close>

definition known_bounds ::
  "size_t option \<Rightarrow> size_t option \<Rightarrow> long \<Rightarrow> long \<Rightarrow> size_t list" where
  "known_bounds cgroup_limit soft pages pageSize =
     (case cgroup_limit of Some v \<Rightarrow> [v] | None \<Rightarrow> [])
     @ (case soft of Some r \<Rightarrow> if r = RLIM_INFINITY then [] else [r] | None \<Rightarrow> [])
     @ (if pages = - 1 \<or> pageSize = - 1 then [] else [pages * pageSize])"

text \<open>The minimum of the bounds, and the sentinel 0 when there is none.\<close>

definition minimum_or_sentinel :: "size_t list \<Rightarrow> size_t" where
  "minimum_or_sentinel bs = (if bs = [] then 0 else Min (set bs))"

text \<open>The same, with a minimum of \<open>SIZE_T_MAX\<close> reported as the sentinel too.\<close>

definition reported_limit :: "size_t list \<Rightarrow> size_t" where
  "reported_limit bs = (if bs = [] \<or> Min (set bs) = SIZE_T_MAX then 0 else Min (set bs))"

text \<open>The cgroup limit of an object: what its memory-limit read stores when it succeeds.\<close>

definition cgroup_limit :: "env \<Rightarrow> CGroup \<Rightarrow> size_t option" where
  "cgroup_limit e cgroup =
     (case fst (GetPhysicalMemoryLimit e cgroup (Some 0)) of
        (True, cell) \<Rightarrow> cell
      | (False, cell) \<Rightarrow> None)"









text \<open>The life of an object: a sequence of calls of its public methods.\<close>

datatype method_call = Call_GetPhysicalMemoryLimit "size_t option" | Call_GetCpuLimit UINT

fun run_calls :: "env \<Rightarrow> CGroup \<Rightarrow> method_call list \<Rightarrow> CGroup \<times> string list" where
  "run_calls e this [] = (this, [])"
| "run_calls e this (c # cs) =
     (let (this', t) =
            (case c of
               Call_GetPhysicalMemoryLimit val \<Rightarrow> snd (GetPhysicalMemoryLimit e this val)
             | Call_GetCpuLimit val \<Rightarrow> snd (GetCpuLimit e this val));
          (this'', t') = run_calls e this' cs
      in (this'', t @ t'))"

section \<open>Properties\<close>

subsection \<open>The byte-count reader: suffixes and overflow\<close>

lemmas strtoull_eval = strtoull_def skip_sign_def base0_prefix_def is_digit_in_def
  digit_val_def isspace_def nl_def ULLONG_MAX_def

lemma fopen_one_line_file [simp]: "fopen (one_line_file f l) f = Some [l]"
  by (simp add: fopen_def one_line_file_def)

lemma suffix_multiplier_nonzero: "suffix_multiplier c \<noteq> 0"
  by (simp add: suffix_multiplier_def)

lemma suffix_multiplier_table:
  "suffix_multiplier c =
     (if c = CHR ''g'' \<or> c = CHR ''G'' then 1024 * 1024 * 1024
      else if c = CHR ''m'' \<or> c = CHR ''M'' then 1024 * 1024
      else if c = CHR ''k'' \<or> c = CHR ''K'' then 1024 else 1)"
  by (simp add: suffix_multiplier_def)

text \<open>
  The test of line 341: dividing the wrapped product by a non-zero multiplier gives the
  number back exactly when the product did not wrap.
\<close>

lemma mult_div_exact_iff:
  fixes n m :: "64 word"
  assumes "m \<noteq> 0"
  shows "(n * m) div m = n \<longleftrightarrow> unat n * unat m < 2 ^ 64"
proof
  assume lt: "unat n * unat m < 2 ^ 64"
  have "unat (n * m) = unat n * unat m"
    using lt unat_mult_lem [of n m] by simp
  moreover have "0 < unat m" using assms by (simp add: unat_gt_0)
  ultimately have "unat ((n * m) div m) = unat n"
    by (simp add: unat_div)
  then show "(n * m) div m = n" by (simp add: word_unat_eq_iff)
next
  assume eq: "(n * m) div m = n"
  have pos: "0 < unat m" using assms by (simp add: unat_gt_0)
  show "unat n * unat m < 2 ^ 64"
  proof (rule ccontr)
    assume "\<not> unat n * unat m < 2 ^ 64"
    then have ge: "2 ^ 64 \<le> unat n * unat m" by simp
    have "unat (n * m) < 2 ^ 64" using unsigned_less [of "n * m"] by simp
    then have "unat (n * m) < unat n * unat m" using ge by linarith
    then have "unat (n * m) div unat m < unat n"
      using pos by (simp add: div_less_iff_less_mult)
    then have "unat ((n * m) div m) < unat n" by (simp add: unat_div)
    then show False using eq by simp
  qed
qed

lemma ReadMemoryValueFromFile_parsed:
  assumes "fopen e filename = Some (line # rest)" and "strtoull line = (num, endptr, False)"
  shows "ReadMemoryValueFromFile e filename (Some v0) =
         ((num * suffix_multiplier (deref endptr) div suffix_multiplier (deref endptr) = num,
           Some (num * suffix_multiplier (deref endptr))), [filename])"
  using assms by (simp add: ReadMemoryValueFromFile_def Let_def)

lemma strtoull_1: "strtoull (''1'' @ [nl]) = (1, [nl], False)"
  by (simp add: strtoull_eval)

lemma strtoull_1k: "strtoull (''1k'' @ [nl]) = (1, ''k'' @ [nl], False)"
  by (simp add: strtoull_eval)

lemma strtoull_1K: "strtoull (''1K'' @ [nl]) = (1, ''K'' @ [nl], False)"
  by (simp add: strtoull_eval)

lemma strtoull_1m: "strtoull (''1m'' @ [nl]) = (1, ''m'' @ [nl], False)"
  by (simp add: strtoull_eval)

lemma strtoull_1M: "strtoull (''1M'' @ [nl]) = (1, ''M'' @ [nl], False)"
  by (simp add: strtoull_eval)

lemma strtoull_1g: "strtoull (''1g'' @ [nl]) = (1, ''g'' @ [nl], False)"
  by (simp add: strtoull_eval)

lemma strtoull_1G: "strtoull (''1G'' @ [nl]) = (1, ''G'' @ [nl], False)"
  by (simp add: strtoull_eval)

text \<open>
  C3. For every file whose first line \<open>strtoull\<close> parses (no range error) to \<open>num\<close>,
  stopping at \<open>endptr\<close>, the byte-count reader stores \<open>num\<close> times the multiplier of
  the character at \<open>endptr\<close> through \<open>val\<close>, the product taken in \<open>size_t\<close>; when
  the product of the two numbers is below \<open>2 ^ 64\<close> it reports success and the stored
  value is that product. The multiplier is \<open>1024 * 1024 * 1024\<close> for g and G,
  \<open>1024 * 1024\<close> for m and M, 1024 for k and K, and 1 for any other character: the
  fall-through of the switch multiplies cumulatively.
\<close>

theorem ReadMemoryValueFromFile_suffix:
  assumes "fopen e filename = Some (line # rest)" and "strtoull line = (num, endptr, False)"
  shows "snd (fst (ReadMemoryValueFromFile e filename (Some v0)))
           = Some (num * suffix_multiplier (deref endptr))
       \<and> (unat num * unat (suffix_multiplier (deref endptr)) < 2 ^ 64 \<longrightarrow>
            ReadMemoryValueFromFile e filename (Some v0)
              = ((True, Some (num * suffix_multiplier (deref endptr))), [filename])
            \<and> unat (num * suffix_multiplier (deref endptr))
                = unat num * unat (suffix_multiplier (deref endptr)))
       \<and> suffix_multiplier (deref endptr) =
            (if deref endptr = CHR ''g'' \<or> deref endptr = CHR ''G'' then 1024 * 1024 * 1024
             else if deref endptr = CHR ''m'' \<or> deref endptr = CHR ''M'' then 1024 * 1024
             else if deref endptr = CHR ''k'' \<or> deref endptr = CHR ''K'' then 1024 else 1)"
proof -
  let ?m = "suffix_multiplier (deref endptr)"
  note r = ReadMemoryValueFromFile_parsed [OF assms, of v0]
  have a: "snd (fst (ReadMemoryValueFromFile e filename (Some v0))) = Some (num * ?m)"
    by (simp add: r)
  have b: "unat num * unat ?m < 2 ^ 64 \<longrightarrow>
            ReadMemoryValueFromFile e filename (Some v0) = ((True, Some (num * ?m)), [filename])
            \<and> unat (num * ?m) = unat num * unat ?m"
  proof
    assume lt: "unat num * unat ?m < 2 ^ 64"
    then have "num * ?m div ?m = num"
      using mult_div_exact_iff [OF suffix_multiplier_nonzero, of num "deref endptr"] by simp
    moreover have "unat (num * ?m) = unat num * unat ?m"
      using lt unat_mult_lem [of num ?m] by simp
    ultimately show
      "ReadMemoryValueFromFile e filename (Some v0) = ((True, Some (num * ?m)), [filename])
       \<and> unat (num * ?m) = unat num * unat ?m"
      by (simp add: r)
  qed
  show ?thesis using a b suffix_multiplier_table [of "deref endptr"] by blast
qed

text \<open>The lines of the spec: 1 gives 1, 1k and 1K give 1024, 1m and 1M give 1048576, 1g
  and 1G give 1073741824.\<close>

theorem ReadMemoryValueFromFile_suffix_witness:
  "ReadMemoryValueFromFile (one_line_file ''f'' (''1'' @ [nl])) ''f'' (Some 0)
     = ((True, Some 1), [''f''])
   \<and> ReadMemoryValueFromFile (one_line_file ''f'' (''1k'' @ [nl])) ''f'' (Some 0)
       = ((True, Some 1024), [''f''])
   \<and> ReadMemoryValueFromFile (one_line_file ''f'' (''1K'' @ [nl])) ''f'' (Some 0)
       = ((True, Some 1024), [''f''])
   \<and> ReadMemoryValueFromFile (one_line_file ''f'' (''1m'' @ [nl])) ''f'' (Some 0)
       = ((True, Some 1048576), [''f''])
   \<and> ReadMemoryValueFromFile (one_line_file ''f'' (''1M'' @ [nl])) ''f'' (Some 0)
       = ((True, Some 1048576), [''f''])
   \<and> ReadMemoryValueFromFile (one_line_file ''f'' (''1g'' @ [nl])) ''f'' (Some 0)
       = ((True, Some 1073741824), [''f''])
   \<and> ReadMemoryValueFromFile (one_line_file ''f'' (''1G'' @ [nl])) ''f'' (Some 0)
       = ((True, Some 1073741824), [''f''])"
  using ReadMemoryValueFromFile_suffix [OF fopen_one_line_file strtoull_1, of "''f''" 0]
    ReadMemoryValueFromFile_suffix [OF fopen_one_line_file strtoull_1k, of "''f''" 0]
    ReadMemoryValueFromFile_suffix [OF fopen_one_line_file strtoull_1K, of "''f''" 0]
    ReadMemoryValueFromFile_suffix [OF fopen_one_line_file strtoull_1m, of "''f''" 0]
    ReadMemoryValueFromFile_suffix [OF fopen_one_line_file strtoull_1M, of "''f''" 0]
    ReadMemoryValueFromFile_suffix [OF fopen_one_line_file strtoull_1g, of "''f''" 0]
    ReadMemoryValueFromFile_suffix [OF fopen_one_line_file strtoull_1G, of "''f''" 0]
  by (simp add: deref_def nl_def)

text \<open>
  C4. Whatever the first line parses to, when the product of the parsed number and the
  suffix multiplier does not fit in 64 bits the byte-count reader reports failure; and
  whenever it reports success, the value it stored is the exact product.
\<close>

theorem ReadMemoryValueFromFile_overflow:
  assumes "fopen e filename = Some (line # rest)" and "strtoull line = (num, endptr, err)"
  shows "(2 ^ 64 \<le> unat num * unat (suffix_multiplier (deref endptr)) \<longrightarrow>
            \<not> fst (fst (ReadMemoryValueFromFile e filename val)))
       \<and> (fst (fst (ReadMemoryValueFromFile e filename val)) \<longrightarrow>
            (\<exists>v. snd (fst (ReadMemoryValueFromFile e filename val)) = Some v
               \<and> unat v = unat num * unat (suffix_multiplier (deref endptr))))"
proof (cases "val = None \<or> err")
  case True
  then show ?thesis using assms by (auto simp: ReadMemoryValueFromFile_def)
next
  case False
  then obtain v0 where v0: "val = Some v0" and ne: "\<not> err" by auto
  let ?m = "suffix_multiplier (deref endptr)"
  have r: "ReadMemoryValueFromFile e filename val
             = ((num * ?m div ?m = num, Some (num * ?m)), [filename])"
    using ReadMemoryValueFromFile_parsed [OF assms(1), of num endptr v0] assms(2) ne v0
    by simp
  have iff: "num * ?m div ?m = num \<longleftrightarrow> unat num * unat ?m < 2 ^ 64"
    by (rule mult_div_exact_iff [OF suffix_multiplier_nonzero])
  have "unat num * unat ?m < 2 ^ 64 \<Longrightarrow> unat (num * ?m) = unat num * unat ?m"
    using unat_mult_lem [of num ?m] by simp
  then show ?thesis using r iff by auto
qed

theorem ReadMemoryValueFromFile_overflow_witness:
  "\<not> fst (fst (ReadMemoryValueFromFile
       (one_line_file ''f'' (''18446744073709551615k'' @ [nl])) ''f'' (Some 0)))
   \<and> fst (fst (ReadMemoryValueFromFile (one_line_file ''f'' (''1k'' @ [nl])) ''f'' (Some 0)))"
proof -
  have s: "strtoull (''18446744073709551615k'' @ [nl])
             = (18446744073709551615, ''k'' @ [nl], False)"
    by (simp add: strtoull_eval)
  have "\<not> fst (fst (ReadMemoryValueFromFile
          (one_line_file ''f'' (''18446744073709551615k'' @ [nl])) ''f'' (Some 0)))"
    using ReadMemoryValueFromFile_overflow [OF fopen_one_line_file s, of "''f''" "Some 0"]
    by (simp add: deref_def suffix_multiplier_def)
  moreover have
    "fst (fst (ReadMemoryValueFromFile (one_line_file ''f'' (''1k'' @ [nl])) ''f'' (Some 0)))"
    using ReadMemoryValueFromFile_parsed [OF fopen_one_line_file strtoull_1k, of "''f''" 0]
    by (simp add: deref_def suffix_multiplier_def)
  ultimately show ?thesis by simp
qed

subsection \<open>The CPU limit\<close>

lemmas atoll_eval = atoll_def skip_sign_def is_digit_in_def digit_val_def isspace_def nl_def
  LLONG_MAX_def

lemma ReadCpuCGroupValue_this: "fst (snd (ReadCpuCGroupValue e this f)) = this"
  by (simp add: ReadCpuCGroupValue_def split: option.splits prod.splits)

text \<open>On positive operands the truncating division is the floor, and it does not wrap.\<close>

lemma sint_lldiv_pos:
  assumes "0 < sint a" and "0 < sint b"
  shows "sint (lldiv a b) = sint a div sint b"
proof -
  have eq: "sint a sdiv sint b = sint a div sint b"
    using assms by (simp add: signed_divide_int_def sgn_if)
  have "0 \<le> sint a div sint b" using assms by (simp add: pos_imp_zdiv_nonneg_iff)
  moreover have "sint a div sint b \<le> sint a"
    using assms int_div_le_self by simp
  moreover have "sint a < 2 ^ 63" using sint_lt [of a] by simp
  ultimately have "signed_take_bit 63 (sint a div sint b) = sint a div sint b"
    by (intro signed_take_bit_int_eq_self) auto
  then show ?thesis by (simp add: lldiv_def eq signed_of_int)
qed

lemma sint_ucast_UINT_MAX: "sint (ucast UINT_MAX :: 64 word) = 4294967295"
  by (simp add: UINT_MAX_def)

text \<open>The conversion of a count below \<open>UINT_MAX\<close> to \<open>UINT\<close> keeps its value.\<close>

lemma unat_ucast_small:
  fixes c :: "64 word"
  assumes "0 \<le> sint c" and "sint c < 4294967295"
  shows "int (unat (ucast c :: 32 word)) = sint c"
proof -
  have tb: "take_bit 64 (sint c) = sint c"
    using assms by (intro take_bit_int_eq_self) auto
  have e1: "uint c = take_bit LENGTH(64) (sint c)" by (rule uint_sint)
  have e2: "LENGTH(64) = 64" by simp
  have u: "uint c = sint c" by (simp only: e1 e2 tb)
  have v: "int (unat c) = sint c" using u unfolding uint_nat .
  then have "unat c < 4294967296" using assms by linarith
  then have "unat (ucast c :: 32 word) = unat c"
    by (simp add: unsigned_ucast_eq take_bit_nat_eq_self)
  then show ?thesis using v by (simp only:)
qed

lemma GetCpuLimit_unfold:
  assumes q: "ReadCpuCGroupValue e this CFS_QUOTA_FILENAME = (quota, this1, t1)"
      and p: "ReadCpuCGroupValue e this CFS_PERIOD_FILENAME = (period, this2, t2)"
  shows "GetCpuLimit e this val =
     (if sint quota \<le> 0 then ((False, val), this, t1)
      else if sint period \<le> 0 then ((False, val), this, t1 @ t2)
      else if sint quota \<le> sint period then ((True, 1), this, t1 @ t2)
      else if sint (lldiv quota period) < 4294967295
           then ((True, ucast (lldiv quota period)), this, t1 @ t2)
           else ((True, UINT_MAX), this, t1 @ t2))"
proof -
  have a: "this1 = this"
    using ReadCpuCGroupValue_this [of e this CFS_QUOTA_FILENAME] q by simp
  have b: "this2 = this"
    using ReadCpuCGroupValue_this [of e this CFS_PERIOD_FILENAME] p by simp
  show ?thesis
    using q p unfolding a b
    by (simp add: GetCpuLimit_def Let_def word_sle_eq word_sless_alt sint_ucast_UINT_MAX)
qed

text \<open>
  C2. With \<open>quota\<close> and \<open>period\<close> what the two reads return: the CPU-limit query fails
  when the directory is unknown, when a file read fails, or when a value is zero or
  negative; when both values are positive it succeeds with a count \<open>n\<close> that is 1 when
  \<open>quota \<le> period\<close> and else the floor of \<open>quota / period\<close>, clamped to
  \<open>2 ^ 32 - 1\<close>; the count is at least 1.
\<close>

theorem GetCpuLimit_count:
  assumes q: "ReadCpuCGroupValue e this CFS_QUOTA_FILENAME = (quota, this1, t1)"
      and p: "ReadCpuCGroupValue e this CFS_PERIOD_FILENAME = (period, this2, t2)"
  shows "((case m_cpu_cgroup_path this of
             None \<Rightarrow> True
           | Some path \<Rightarrow>
               \<not> fst (fst (ReadLongLongValueFromFile e (path @ CFS_QUOTA_FILENAME) (Some 0)))
               \<or> \<not> fst (fst (ReadLongLongValueFromFile e (path @ CFS_PERIOD_FILENAME) (Some 0))))
           \<or> sint quota \<le> 0 \<or> sint period \<le> 0
          \<longrightarrow> fst (GetCpuLimit e this val) = (False, val))
       \<and> (0 < sint quota \<and> 0 < sint period \<longrightarrow>
            (\<exists>n. fst (GetCpuLimit e this val) = (True, n)
               \<and> int (unat n) = (if sint quota \<le> sint period then 1
                                   else min (sint quota div sint period) (2 ^ 32 - 1))
               \<and> 1 \<le> unat n))"
proof -
  note u = GetCpuLimit_unfold [OF q p, of val]
  have fail: "sint quota \<le> 0 \<or> sint period \<le> 0
                \<Longrightarrow> fst (GetCpuLimit e this val) = (False, val)"
    by (auto simp: u)
  have rd: "(case m_cpu_cgroup_path this of
             None \<Rightarrow> True
           | Some path \<Rightarrow>
               \<not> fst (fst (ReadLongLongValueFromFile e (path @ CFS_QUOTA_FILENAME) (Some 0)))
               \<or> \<not> fst (fst (ReadLongLongValueFromFile e (path @ CFS_PERIOD_FILENAME) (Some 0))))
          \<Longrightarrow> sint quota \<le> 0 \<or> sint period \<le> 0"
    using q p
    by (auto simp: ReadCpuCGroupValue_def split: option.splits prod.splits if_splits)
  have ok: "\<exists>n. fst (GetCpuLimit e this val) = (True, n)
               \<and> int (unat n) = (if sint quota \<le> sint period then 1
                                   else min (sint quota div sint period) (2 ^ 32 - 1))
               \<and> 1 \<le> unat n"
    if pos: "0 < sint quota" "0 < sint period"
  proof (cases "sint quota \<le> sint period")
    case True
    then show ?thesis using pos by (simp add: u)
  next
    case False
    note d = sint_lldiv_pos [OF pos]
    have "0 < sint quota div sint period"
      using False pos by (simp add: pos_imp_zdiv_pos_iff)
    then have ge1: "1 \<le> sint quota div sint period" by linarith
    show ?thesis
    proof (cases "sint (lldiv quota period) < 4294967295")
      case True
      have n: "int (unat (ucast (lldiv quota period) :: 32 word)) = sint quota div sint period"
        using unat_ucast_small [of "lldiv quota period"] True ge1 d by simp
      then have "1 \<le> unat (ucast (lldiv quota period) :: 32 word)"
        using ge1 by linarith
      moreover have "fst (GetCpuLimit e this val) = (True, ucast (lldiv quota period))"
        using True False pos by (simp add: u)
      moreover have
        "min (sint quota div sint period) (2 ^ 32 - 1) = sint quota div sint period"
        using True d by simp
      ultimately show ?thesis using n False by (simp del: of_nat_unat)
    next
      case F2: False
      then show ?thesis using False pos d by (simp add: u UINT_MAX_def)
    qed
  qed
  show ?thesis using fail rd ok by blast
qed

lemma ReadCpuCGroupValue_container:
  "ReadCpuCGroupValue (container_env l ''250000'' ''100000'') container_cgroup
     CFS_QUOTA_FILENAME = (250000, container_cgroup, [''/sys/fs/cgroup/cpu/x/cpu.cfs_quota_us''])"
  "ReadCpuCGroupValue (container_env l ''250000'' ''100000'') container_cgroup
     CFS_PERIOD_FILENAME = (100000, container_cgroup, [''/sys/fs/cgroup/cpu/x/cpu.cfs_period_us''])"
  "ReadCpuCGroupValue (container_env l ''50000'' ''0'') container_cgroup
     CFS_QUOTA_FILENAME = (50000, container_cgroup, [''/sys/fs/cgroup/cpu/x/cpu.cfs_quota_us''])"
  "ReadCpuCGroupValue (container_env l ''50000'' ''0'') container_cgroup
     CFS_PERIOD_FILENAME = (0, container_cgroup, [''/sys/fs/cgroup/cpu/x/cpu.cfs_period_us''])"
  by (simp_all add: ReadCpuCGroupValue_def ReadLongLongValueFromFile_def container_env_def
      container_cgroup_def fopen_def CFS_QUOTA_FILENAME_def CFS_PERIOD_FILENAME_def atoll_eval)

text \<open>Quota 250000 with period 100000 gives 2; a period of 0 gives failure.\<close>

theorem GetCpuLimit_count_witness:
  "fst (GetCpuLimit (container_env ''2g'' ''250000'' ''100000'') container_cgroup 0) = (True, 2)
   \<and> fst (GetCpuLimit (container_env ''2g'' ''50000'' ''0'') container_cgroup 7) = (False, 7)"
proof -
  have "\<exists>n. fst (GetCpuLimit (container_env ''2g'' ''250000'' ''100000'') container_cgroup 0)
               = (True, n) \<and> uint n = 2"
    using GetCpuLimit_count [OF ReadCpuCGroupValue_container(1,2), of "''2g''" 0] by auto
  then obtain n :: UINT
    where n: "fst (GetCpuLimit (container_env ''2g'' ''250000'' ''100000'') container_cgroup 0)
                = (True, n)" and "uint n = 2"
    by blast
  then have "uint n = uint (2 :: UINT)" by simp
  then have "n = 2" by (simp only: word_uint_eq_iff)
  moreover have
    "fst (GetCpuLimit (container_env ''2g'' ''50000'' ''0'') container_cgroup 7) = (False, 7)"
    using GetCpuLimit_count [OF ReadCpuCGroupValue_container(3,4), of "''2g''" 7] by simp
  ultimately show ?thesis using n by simp
qed

subsection \<open>Unknown directories\<close>

lemma GetPhysicalMemoryLimit_this: "fst (snd (GetPhysicalMemoryLimit e this val)) = this"
  by (simp add: GetPhysicalMemoryLimit_def split: option.splits prod.splits)

lemma GetCpuLimit_this: "fst (snd (GetCpuLimit e this val)) = this"
proof -
  obtain quota this1 t1 where q: "ReadCpuCGroupValue e this CFS_QUOTA_FILENAME = (quota, this1, t1)"
    by (cases "ReadCpuCGroupValue e this CFS_QUOTA_FILENAME") auto
  obtain period this2 t2
    where p: "ReadCpuCGroupValue e this CFS_PERIOD_FILENAME = (period, this2, t2)"
    by (cases "ReadCpuCGroupValue e this CFS_PERIOD_FILENAME") auto
  show ?thesis by (simp add: GetCpuLimit_unfold [OF q p])
qed

lemma run_calls_this: "fst (run_calls e this cs) = this"
proof (induction cs arbitrary: this)
  case Nil
  then show ?case by simp
next
  case (Cons c cs)
  have step: "fst (case c of
               Call_GetPhysicalMemoryLimit val \<Rightarrow> snd (GetPhysicalMemoryLimit e this val)
             | Call_GetCpuLimit val \<Rightarrow> snd (GetCpuLimit e this val)) = this"
    by (cases c) (simp_all add: GetPhysicalMemoryLimit_this GetCpuLimit_this)
  show ?case
    using Cons.IH [of this] step
    by (auto simp: Let_def split: prod.splits)
qed

text \<open>
  C9. On an object whose memory directory is unknown the memory-limit read fails and
  opens no file; on an object whose cpu directory is unknown the quota and period reads
  return \<open>- 1\<close> and the CPU-limit query fails, and they open no file. Whatever the
  directories are, the object is the same after any sequence of calls of its methods.
\<close>

theorem unknown_directory_reads_fail:
  "(m_memory_cgroup_path this = None \<longrightarrow>
      GetPhysicalMemoryLimit e this val = ((False, val), this, []))
   \<and> (m_cpu_cgroup_path this = None \<longrightarrow>
        ReadCpuCGroupValue e this subsystemFilename = (- 1, this, [])
        \<and> GetCpuLimit e this v = ((False, v), this, []))
   \<and> fst (run_calls e this cs) = this"
proof -
  have a: "m_memory_cgroup_path this = None \<Longrightarrow>
             GetPhysicalMemoryLimit e this val = ((False, val), this, [])"
    by (simp add: GetPhysicalMemoryLimit_def)
  have b: "m_cpu_cgroup_path this = None \<Longrightarrow>
             ReadCpuCGroupValue e this f = (- 1, this, [])" for f
    by (simp add: ReadCpuCGroupValue_def)
  have c: "m_cpu_cgroup_path this = None \<Longrightarrow> GetCpuLimit e this v = ((False, v), this, [])"
    using GetCpuLimit_unfold [OF b b, of v] by simp
  show ?thesis using a b c run_calls_this by blast
qed

text \<open>An object with both directories unknown, in an environment where every file
  could be read.\<close>

theorem unknown_directory_reads_fail_witness:
  "GetPhysicalMemoryLimit (container_env ''2g'' ''250000'' ''100000'')
     \<lparr>m_memory_cgroup_path = None, m_cpu_cgroup_path = None\<rparr> (Some 5)
     = ((False, Some 5), \<lparr>m_memory_cgroup_path = None, m_cpu_cgroup_path = None\<rparr>, [])
   \<and> GetCpuLimit (container_env ''2g'' ''250000'' ''100000'')
       \<lparr>m_memory_cgroup_path = None, m_cpu_cgroup_path = None\<rparr> 5
       = ((False, 5), \<lparr>m_memory_cgroup_path = None, m_cpu_cgroup_path = None\<rparr>, [])
   \<and> fst (run_calls (container_env ''2g'' ''250000'' ''100000'') container_cgroup
            [Call_GetCpuLimit 0, Call_GetPhysicalMemoryLimit (Some 0)]) = container_cgroup"
  using unknown_directory_reads_fail
    [of "\<lparr>m_memory_cgroup_path = None, m_cpu_cgroup_path = None\<rparr>"
        "container_env ''2g'' ''250000'' ''100000''" "Some 5" CFS_QUOTA_FILENAME 5 "[]"]
    unknown_directory_reads_fail
    [of container_cgroup "container_env ''2g'' ''250000'' ''100000''" "Some 5"
        CFS_QUOTA_FILENAME 5 "[Call_GetCpuLimit 0, Call_GetPhysicalMemoryLimit (Some 0)]"]
  by simp

subsection \<open>The physical memory limit\<close>

lemmas scan_eval = sscanf_s_def mountinfo_format_def mountpath_format_def cgroup_format_def
  isspace_def input_failure_def stored1_def stored2_def strchr_def strtok_all_def nl_def
  IsMemorySubsystem_def IsCpuSubsystem_def

lemmas ctor_eval = CGroup_ctor_def FindMemoryCgroupPath_def FindCpuCgroupPath_def
  FindCgroupPath_def FindHierarchyMount_def FindCGroupPathForSubsystem_def fopen_def
  PROC_MOUNTINFO_FILENAME_def PROC_CGROUP_FILENAME_def

lemma CGroup_ctor_container:
  "CGroup_ctor (container_env l q p) =
     (Ret container_cgroup,
      [''/proc/self/mountinfo'', ''/proc/self/cgroup'',
       ''/proc/self/mountinfo'', ''/proc/self/cgroup''])"
  by (simp add: ctor_eval container_env_def container_cgroup_def scan_eval)

lemma ReadMemoryValueFromFile_cell:
  "snd (fst (ReadMemoryValueFromFile e filename (Some v0))) \<noteq> None"
  by (simp add: ReadMemoryValueFromFile_def Let_def split: option.splits list.splits prod.splits)

lemma GetPhysicalMemoryLimit_cell:
  "snd (fst (GetPhysicalMemoryLimit e this (Some v0))) \<noteq> None"
proof (cases "m_memory_cgroup_path this")
  case None
  then show ?thesis by (simp add: GetPhysicalMemoryLimit_def)
next
  case (Some path)
  then have "fst (GetPhysicalMemoryLimit e this (Some v0))
               = fst (ReadMemoryValueFromFile e (path @ MEM_LIMIT_FILENAME) (Some v0))"
    by (simp add: GetPhysicalMemoryLimit_def split: prod.splits)
  then show ?thesis
    using ReadMemoryValueFromFile_cell [of e "path @ MEM_LIMIT_FILENAME" v0] by simp
qed

lemma min_SIZE_T_MAX [simp]: "min SIZE_T_MAX x = x" "min x SIZE_T_MAX = x"
proof -
  have "x \<le> SIZE_T_MAX" by (simp add: SIZE_T_MAX_def)
  then show "min SIZE_T_MAX x = x" "min x SIZE_T_MAX = x"
    by (simp_all add: min.absorb1 min.absorb2)
qed

lemma container_env_fields [simp]:
  "rlimit_as (container_env l q p) = Some (- 1)"
  "phys_pages (container_env l q p) = - 1"
  "page_size (container_env l q p) = 4096"
  by (simp_all add: container_env_def)

text \<open>Lines 413 to 438, after the constructor has returned.\<close>

lemma PAL_GetRestrictedPhysicalMemoryLimit_unfold:
  assumes "CGroup_ctor e = (Ret cgroup, t)"
  shows "fst (PAL_GetRestrictedPhysicalMemoryLimit e) =
     Ret (let l0 = (case cgroup_limit e cgroup of Some v \<Rightarrow> v | None \<Rightarrow> SIZE_T_MAX);
              l1 = min l0 (case rlimit_as e of Some r \<Rightarrow> r | None \<Rightarrow> RLIM_INFINITY);
              l2 = (if phys_pages e \<noteq> - 1 \<and> page_size e \<noteq> - 1
                    then min l1 (phys_pages e * page_size e) else l1)
          in if l2 = SIZE_T_MAX then 0 else l2)"
proof -
  obtain ok cell cgroup' t'
    where g: "GetPhysicalMemoryLimit e cgroup (Some 0) = ((ok, cell), cgroup', t')"
    by (cases "GetPhysicalMemoryLimit e cgroup (Some 0)") auto
  obtain v where c: "cell = Some v"
    using GetPhysicalMemoryLimit_cell [of e cgroup 0] g by auto
  show ?thesis
    using assms g c
    by (simp add: PAL_GetRestrictedPhysicalMemoryLimit_def cgroup_limit_def Let_def)
qed

lemma reported_limit_eval:
  "reported_limit (known_bounds c r pages pageSize) =
     (let l0 = (case c of Some v \<Rightarrow> v | None \<Rightarrow> SIZE_T_MAX);
          l1 = min l0 (case r of Some r \<Rightarrow> r | None \<Rightarrow> RLIM_INFINITY);
          l2 = (if pages \<noteq> - 1 \<and> pageSize \<noteq> - 1 then min l1 (pages * pageSize) else l1)
      in if l2 = SIZE_T_MAX then 0 else l2)"
proof -
  have r: "RLIM_INFINITY = SIZE_T_MAX" by (simp add: RLIM_INFINITY_def SIZE_T_MAX_def)
  show ?thesis
    unfolding reported_limit_def known_bounds_def Let_def r
    by (cases c; cases r) (auto simp: min.commute min.left_commute)
qed

text \<open>
  C1, amended. When the constructor returns, the query returns the minimum of the known
  bounds (the cgroup limit when its read succeeds, the soft limit when \<open>getrlimit\<close>
  succeeds and the limit is not \<open>RLIM_INFINITY\<close>, pages times page size in
  \<open>size_t\<close> when neither \<open>sysconf\<close> call fails), except that it returns 0 when
  there is no bound or when that minimum is \<open>SIZE_T_MAX\<close>.
\<close>

theorem PAL_GetRestrictedPhysicalMemoryLimit_min:
  assumes "CGroup_ctor e = (Ret cgroup, t)"
  shows "fst (PAL_GetRestrictedPhysicalMemoryLimit e) =
           Ret (reported_limit
                  (known_bounds (cgroup_limit e cgroup) (rlimit_as e) (phys_pages e)
                     (page_size e)))"
proof -
  let ?c = "cgroup_limit e cgroup"
  have "fst (PAL_GetRestrictedPhysicalMemoryLimit e) =
     Ret (let l0 = (case ?c of Some v \<Rightarrow> v | None \<Rightarrow> SIZE_T_MAX);
              l1 = min l0 (case rlimit_as e of Some r \<Rightarrow> r | None \<Rightarrow> RLIM_INFINITY);
              l2 = (if phys_pages e \<noteq> - 1 \<and> page_size e \<noteq> - 1
                    then min l1 (phys_pages e * page_size e) else l1)
          in if l2 = SIZE_T_MAX then 0 else l2)"
    by (rule PAL_GetRestrictedPhysicalMemoryLimit_unfold [OF assms])
  also have "\<dots> = Ret (reported_limit
                         (known_bounds ?c (rlimit_as e) (phys_pages e) (page_size e)))"
    by (simp only: reported_limit_eval)
  finally show ?thesis .
qed

lemma cgroup_limit_container_2g:
  "cgroup_limit (container_env ''2g'' q p) container_cgroup = Some 2147483648"
  by (simp add: cgroup_limit_def GetPhysicalMemoryLimit_def ReadMemoryValueFromFile_def
      container_env_def container_cgroup_def fopen_def MEM_LIMIT_FILENAME_def strtoull_eval
      deref_def suffix_multiplier_def)

lemma cgroup_limit_container_max:
  "cgroup_limit (container_env ''18446744073709551615'' q p) container_cgroup
     = Some 18446744073709551615"
  by (simp add: cgroup_limit_def GetPhysicalMemoryLimit_def ReadMemoryValueFromFile_def
      container_env_def container_cgroup_def fopen_def MEM_LIMIT_FILENAME_def strtoull_eval
      deref_def suffix_multiplier_def)

text \<open>A cgroup limit of 2 GiB, no finite soft limit, physical memory unknown: 2 GiB.\<close>

theorem PAL_GetRestrictedPhysicalMemoryLimit_min_witness:
  "fst (PAL_GetRestrictedPhysicalMemoryLimit (container_env ''2g'' ''250000'' ''100000''))
     = Ret 2147483648"
  using PAL_GetRestrictedPhysicalMemoryLimit_min [OF CGroup_ctor_container, of "''2g''"
      "''250000''" "''100000''"]
  by (simp add: cgroup_limit_container_2g known_bounds_def reported_limit_def
      RLIM_INFINITY_def SIZE_T_MAX_def)

text \<open>
  C1 as stated fails when a bound is \<open>SIZE_T_MAX\<close> itself: the limit file holds
  18446744073709551615, the read succeeds, no other bound is known, and the query
  returns 0, not the minimum of the bounds.
\<close>

theorem PAL_GetRestrictedPhysicalMemoryLimit_counterexample:
  "fst (PAL_GetRestrictedPhysicalMemoryLimit
          (container_env ''18446744073709551615'' ''250000'' ''100000'')) = Ret 0
   \<and> minimum_or_sentinel
        (known_bounds
           (cgroup_limit (container_env ''18446744073709551615'' ''250000'' ''100000'')
              container_cgroup)
           (rlimit_as (container_env ''18446744073709551615'' ''250000'' ''100000''))
           (phys_pages (container_env ''18446744073709551615'' ''250000'' ''100000''))
           (page_size (container_env ''18446744073709551615'' ''250000'' ''100000'')))
      = 18446744073709551615
   \<and> fst (PAL_GetRestrictedPhysicalMemoryLimit
            (container_env ''18446744073709551615'' ''250000'' ''100000''))
       \<noteq> Ret (minimum_or_sentinel
                (known_bounds
                   (cgroup_limit (container_env ''18446744073709551615'' ''250000'' ''100000'')
                      container_cgroup)
                   (rlimit_as (container_env ''18446744073709551615'' ''250000'' ''100000''))
                   (phys_pages (container_env ''18446744073709551615'' ''250000'' ''100000''))
                   (page_size (container_env ''18446744073709551615'' ''250000'' ''100000''))))"
proof -
  have "fst (PAL_GetRestrictedPhysicalMemoryLimit
          (container_env ''18446744073709551615'' ''250000'' ''100000'')) = Ret 0"
    by (simp add: PAL_GetRestrictedPhysicalMemoryLimit_unfold [OF CGroup_ctor_container]
        cgroup_limit_container_max RLIM_INFINITY_def SIZE_T_MAX_def)
  then show ?thesis
    by (simp add: cgroup_limit_container_max known_bounds_def minimum_or_sentinel_def
        RLIM_INFINITY_def)
qed

subsection \<open>The process cgroup resolver\<close>













subsection \<open>Null output pointers\<close>

lemma FindCgroupPath_opened:
  "set (snd (FindCgroupPath e p)) \<subseteq> {PROC_MOUNTINFO_FILENAME, PROC_CGROUP_FILENAME}"
  by (auto simp: FindCgroupPath_def FindHierarchyMount_def FindCGroupPathForSubsystem_def
      split: option.splits outcome.splits prod.splits)

lemma CGroup_ctor_opened:
  "set (snd (CGroup_ctor e)) \<subseteq> {PROC_MOUNTINFO_FILENAME, PROC_CGROUP_FILENAME}"
proof -
  have "set (snd (CGroup_ctor e))
          \<subseteq> set (snd (FindCgroupPath e IsMemorySubsystem))
            \<union> set (snd (FindCgroupPath e IsCpuSubsystem))"
    by (auto simp: CGroup_ctor_def FindMemoryCgroupPath_def FindCpuCgroupPath_def
        split: outcome.splits prod.splits)
  then show ?thesis
    using FindCgroupPath_opened [of e IsMemorySubsystem]
      FindCgroupPath_opened [of e IsCpuSubsystem]
    by blast
qed

lemma PAL_GetCpuLimit_null_opened: "snd (PAL_GetCpuLimit e None) = snd (CGroup_ctor e)"
  by (simp add: PAL_GetCpuLimit_def split: outcome.splits prod.splits)

text \<open>
  C10, amended. With a null output pointer the byte-count reader and the working-set
  query return failure and open no file. The CPU-limit query constructs its object
  first: when the constructor returns, the query returns failure without storing
  anything, and the files opened are those the constructor opened, the mount table and
  the cgroup membership file; no control file is opened.
\<close>

theorem null_output_pointer:
  "ReadMemoryValueFromFile e filename None = ((False, None), [])
   \<and> PAL_GetWorkingSetSize e None = (Ret (False, None), [])
   \<and> (\<forall>cgroup t. CGroup_ctor e = (Ret cgroup, t) \<longrightarrow>
         PAL_GetCpuLimit e None = (Ret (False, None), t))
   \<and> set (snd (PAL_GetCpuLimit e None)) \<subseteq> {PROC_MOUNTINFO_FILENAME, PROC_CGROUP_FILENAME}"
proof -
  have a: "ReadMemoryValueFromFile e filename None = ((False, None), [])"
    by (simp add: ReadMemoryValueFromFile_def)
  have b: "PAL_GetWorkingSetSize e None = (Ret (False, None), [])"
    by (simp add: PAL_GetWorkingSetSize_def)
  have c: "\<forall>cgroup t. CGroup_ctor e = (Ret cgroup, t) \<longrightarrow>
             PAL_GetCpuLimit e None = (Ret (False, None), t)"
    by (simp add: PAL_GetCpuLimit_def)
  have d: "set (snd (PAL_GetCpuLimit e None))
             \<subseteq> {PROC_MOUNTINFO_FILENAME, PROC_CGROUP_FILENAME}"
    using CGroup_ctor_opened [of e] by (simp only: PAL_GetCpuLimit_null_opened)
  show ?thesis using a b c d by blast
qed

theorem null_output_pointer_witness:
  "PAL_GetWorkingSetSize (container_env ''2g'' ''250000'' ''100000'') None
     = (Ret (False, None), [])
   \<and> fst (PAL_GetCpuLimit (container_env ''2g'' ''250000'' ''100000'') None)
       = Ret (False, None)"
  using null_output_pointer [of "container_env ''2g'' ''250000'' ''100000''" "''f''"]
  by (simp add: CGroup_ctor_container)

text \<open>
  C10 as stated fails for the CPU-limit query: in the container it has opened the mount
  table and the cgroup membership file, twice each, when it returns failure.
\<close>

theorem null_output_pointer_counterexample:
  "PAL_GetCpuLimit (container_env ''2g'' ''250000'' ''100000'') None
     = (Ret (False, None),
        [''/proc/self/mountinfo'', ''/proc/self/cgroup'',
         ''/proc/self/mountinfo'', ''/proc/self/cgroup''])
   \<and> snd (PAL_GetCpuLimit (container_env ''2g'' ''250000'' ''100000'') None) \<noteq> []"
  by (simp add: PAL_GetCpuLimit_def CGroup_ctor_container)

subsection \<open>Where the code departs from the specification\<close>

text \<open>A line without \<open>-\<close> hands \<open>sscanf_s\<close> a null pointer, whatever follows it.\<close>

lemma FindHierarchyMount_loop_no_separator:
  "CHR ''-'' \<notin> set line \<Longrightarrow> FindHierarchyMount_loop p (line # rest) = Fault"
  by (simp add: strchr_def)

text \<open>A line with \<open>-\<close> whose fields after it are missing ends the scan: not found.\<close>

lemma FindHierarchyMount_loop_fields_missing:
  assumes "strchr line CHR ''-'' = Some separatorChar"
    and "sscanfRet (sscanf_s separatorChar mountinfo_format) \<noteq> 2"
  shows "FindHierarchyMount_loop p (line # rest) = Ret None"
proof -
  have "stored2 (sscanf_s separatorChar mountinfo_format) = None"
  proof (cases "sscanf_s separatorChar mountinfo_format")
    case EOF
    then show ?thesis by (simp add: stored2_def)
  next
    case (Stored vs)
    then have "length vs \<noteq> 2" using assms(2) by (simp add: sscanfRet_def)
    then show ?thesis using Stored
      by (cases vs; cases "tl vs"; cases "tl (tl vs)") (auto simp: stored2_def)
  qed
  then show ?thesis using assms(1) by simp
qed

text \<open>
  C5. The first line of the mount table has no \<open>-\<close>: \<open>strchr\<close> returns a null
  pointer, \<open>sscanf_s\<close> is called with it, and so is every query that constructs the
  object.
\<close>

theorem FindHierarchyMount_no_separator:
  "FindHierarchyMount
     (one_line_file PROC_MOUNTINFO_FILENAME (''25 20 0:21 / /sys/fs/cgroup/memory rw'' @ [nl]))
     IsMemorySubsystem = (Fault, [PROC_MOUNTINFO_FILENAME])
   \<and> fst (PAL_GetRestrictedPhysicalMemoryLimit
            (one_line_file PROC_MOUNTINFO_FILENAME
               (''25 20 0:21 / /sys/fs/cgroup/memory rw'' @ [nl]))) = Fault"
proof -
  have l: "FindHierarchyMount
     (one_line_file PROC_MOUNTINFO_FILENAME (''25 20 0:21 / /sys/fs/cgroup/memory rw'' @ [nl]))
     IsMemorySubsystem = (Fault, [PROC_MOUNTINFO_FILENAME])"
    by (simp add: FindHierarchyMount_def strchr_def nl_def)
  then show ?thesis
    by (simp add: PAL_GetRestrictedPhysicalMemoryLimit_def CGroup_ctor_def
        FindMemoryCgroupPath_def FindCgroupPath_def)
qed

text \<open>
  C6. A first line without digits, here \<open>max\<close>: \<open>strtoull\<close> and \<open>atoll\<close> return 0
  and leave \<open>errno\<close> alone, and both readers report success with the value 0.
\<close>

theorem readers_accept_unparseable_line:
  "ReadMemoryValueFromFile (one_line_file ''f'' (''max'' @ [nl])) ''f'' (Some 7)
     = ((True, Some 0), [''f''])
   \<and> ReadLongLongValueFromFile (one_line_file ''f'' (''max'' @ [nl])) ''f'' (Some 7)
       = ((True, Some 0), [''f''])"
  by (simp add: ReadMemoryValueFromFile_def ReadLongLongValueFromFile_def strtoull_eval
      atoll_eval deref_def suffix_multiplier_def)

text \<open>
  C8. A statistics line with one field: the second \<open>strtok_s\<close> call returns a null
  pointer, which goes to \<open>strtoull\<close>. A second field without digits is read as 0,
  with success.
\<close>

theorem PAL_GetWorkingSetSize_field_absent:
  "PAL_GetWorkingSetSize (one_line_file PROC_STATM_FILENAME (''123'' @ [nl])) (Some 0)
     = (Fault, [PROC_STATM_FILENAME])
   \<and> PAL_GetWorkingSetSize (one_line_file PROC_STATM_FILENAME (''100 abc 3'' @ [nl])) (Some 7)
       = (Ret (True, Some 0), [PROC_STATM_FILENAME])"
  by (simp add: PAL_GetWorkingSetSize_def strtok_all_def strtoull_eval)

end
